theory Spec2Isabelle
  imports Complex_Main
begin

section \<open>Costs: floating-point values with their special values\<close>

text \<open>
  Costs are NumPy doubles. The embedding keeps the three special values apart from the
  finite ones and follows IEEE 754 for them; finite values are idealised as reals, so
  rounding and overflow of finite arithmetic are outside the model.
\<close>

datatype fval = Fin real | PInf | NInf | NaN

fun fneg :: "fval \<Rightarrow> fval" where
  "fneg (Fin x) = Fin (- x)"
| "fneg PInf = NInf"
| "fneg NInf = PInf"
| "fneg NaN = NaN"

fun fadd :: "fval \<Rightarrow> fval \<Rightarrow> fval" where
  "fadd NaN _ = NaN"
| "fadd _ NaN = NaN"
| "fadd (Fin x) (Fin y) = Fin (x + y)"
| "fadd PInf NInf = NaN"
| "fadd NInf PInf = NaN"
| "fadd PInf _ = PInf"
| "fadd _ PInf = PInf"
| "fadd NInf _ = NInf"
| "fadd _ NInf = NInf"

definition fsub :: "fval \<Rightarrow> fval \<Rightarrow> fval" where
  "fsub a b = fadd a (fneg b)"

fun fabs :: "fval \<Rightarrow> fval" where
  "fabs (Fin x) = Fin \<bar>x\<bar>"
| "fabs PInf = PInf"
| "fabs NInf = PInf"
| "fabs NaN = NaN"

definition inf_times :: "bool \<Rightarrow> real \<Rightarrow> fval" where
  \<comment> \<open>an infinity (positive iff the flag) times a finite value\<close>
  "inf_times pos x =
     (if x = 0 then NaN else if (0 < x) = pos then PInf else NInf)"

fun fmul :: "fval \<Rightarrow> fval \<Rightarrow> fval" where
  "fmul NaN _ = NaN"
| "fmul _ NaN = NaN"
| "fmul (Fin x) (Fin y) = Fin (x * y)"
| "fmul (Fin x) PInf = inf_times True x"
| "fmul (Fin x) NInf = inf_times False x"
| "fmul PInf (Fin y) = inf_times True y"
| "fmul NInf (Fin y) = inf_times False y"
| "fmul PInf PInf = PInf"
| "fmul NInf NInf = PInf"
| "fmul PInf NInf = NInf"
| "fmul NInf PInf = NInf"

fun flt :: "fval \<Rightarrow> fval \<Rightarrow> bool" where
  \<comment> \<open>the comparison \<open><\<close>: false as soon as one side is NaN\<close>
  "flt NaN _ = False"
| "flt _ NaN = False"
| "flt (Fin x) (Fin y) = (x < y)"
| "flt NInf NInf = False"
| "flt NInf _ = True"
| "flt _ NInf = False"
| "flt PInf _ = False"
| "flt _ PInf = True"

definition fgt :: "fval \<Rightarrow> fval \<Rightarrow> bool" where
  "fgt a b = flt b a"

definition fle :: "fval \<Rightarrow> fval \<Rightarrow> bool" where
  \<comment> \<open>the comparison \<open><=\<close>: false as soon as one side is NaN\<close>
  "fle a b = (a \<noteq> NaN \<and> b \<noteq> NaN \<and> \<not> flt b a)"

definition fge :: "fval \<Rightarrow> fval \<Rightarrow> bool" where
  "fge a b = fle b a"

definition is_finite :: "fval \<Rightarrow> bool" where
  "is_finite a = (case a of Fin _ \<Rightarrow> True | _ \<Rightarrow> False)"

datatype py_error = ValueError | IndexError

section \<open>NumPy reductions used by the source\<close>

text \<open>
  \<open>np.argmin\<close> on doubles: the index of the first minimum; a NaN counts as the minimum
  and the scan stops at the first one. An empty sequence raises \<open>ValueError\<close>.
\<close>

fun argmin_scan :: "fval \<Rightarrow> nat \<Rightarrow> nat \<Rightarrow> fval list \<Rightarrow> nat" where
  "argmin_scan mp min_ind i [] = min_ind"
| "argmin_scan mp min_ind i (x # xs) =
     (if \<not> fge x mp
      then (if x = NaN then i else argmin_scan x i (Suc i) xs)
      else argmin_scan mp min_ind (Suc i) xs)"

definition np_argmin :: "fval list \<Rightarrow> py_error + nat" where
  "np_argmin xs =
     (case xs of
        [] \<Rightarrow> Inl ValueError
      | x # rest \<Rightarrow> Inr (if x = NaN then 0 else argmin_scan x 0 1 rest))"

definition np_min :: "fval list \<Rightarrow> py_error + fval" where
  \<comment> \<open>\<open>np.min\<close>: the minimum, NaN as soon as one entry is NaN\<close>
  "np_min xs = (case np_argmin xs of Inl e \<Rightarrow> Inl e | Inr k \<Rightarrow> Inr (xs ! k))"

section \<open>The entropy of a list of labels\<close>

text \<open>
  \<open>collections.Counter\<close>: the labels with their number of occurrences, in the order
  of first occurrence.
\<close>

fun count_add :: "nat \<Rightarrow> (nat \<times> nat) list \<Rightarrow> (nat \<times> nat) list" where
  "count_add x [] = [(x, 1)]"
| "count_add x ((k, c) # kcs) =
     (if k = x then (k, c + 1) # kcs else (k, c) # count_add x kcs)"

definition Counter :: "nat list \<Rightarrow> (nat \<times> nat) list" where
  "Counter lst = foldl (\<lambda>acc x. count_add x acc) [] lst"

definition entropy :: "nat list \<Rightarrow> real" where
  "entropy lst =
     (let value_counts = Counter lst;
          total_size = length lst;
          probabilities = map (\<lambda>count. real count / real total_size) (map snd value_counts)
      in sum_list (map (\<lambda>p. - p * log 2 p) probabilities))"

section \<open>The entropy-adaptive optimizer \<open>GlobalBestPSO_entropy\<close>\<close>

record Options =
  c1 :: real
  c2 :: real
  w :: real

record Swarm =
  position :: "real list list"
  velocity :: "real list list"
  current_cost :: "fval list"
  pbest_pos :: "real list list"
  pbest_cost :: "fval list"
  best_pos :: "real list"
  best_cost :: fval

record optimizer =
  n_particles :: nat
  dimensions :: nat
  swarm_size :: "nat \<times> nat"
  options :: Options
  ftol :: fval
  ftol_iter :: nat
  swarm :: Swarm

text \<open>
  The constructor of the base class \<open>SwarmOptimizer\<close> of the pyswarms library stores its
  arguments, sets \<open>swarm_size = (n_particles, dimensions)\<close>, and \<open>reset\<close> creates the swarm
  with \<open>n_particles\<close> rows: generated positions and velocities (\<open>gen_pos k\<close> and
  \<open>gen_vel k\<close> stand for the rows the generator yields for particle \<open>k\<close>), personal best
  positions equal to the positions, empty cost arrays and best cost \<open>+inf\<close>.
\<close>

definition SwarmOptimizer_init ::
  "(nat \<Rightarrow> real list) \<Rightarrow> (nat \<Rightarrow> real list) \<Rightarrow> nat \<Rightarrow> nat \<Rightarrow> Options \<Rightarrow> fval \<Rightarrow> nat \<Rightarrow> optimizer" where
  "SwarmOptimizer_init gen_pos gen_vel n d opts tol tol_iter =
     \<lparr> n_particles = n, dimensions = d, swarm_size = (n, d), options = opts,
       ftol = tol, ftol_iter = tol_iter,
       swarm = \<lparr> position = map gen_pos [0..<n], velocity = map gen_vel [0..<n],
                 current_cost = [], pbest_pos = map gen_pos [0..<n], pbest_cost = [],
                 best_pos = [], best_cost = PInf \<rparr> \<rparr>"

text \<open>
  \<open>GlobalBestPSO_entropy.__init__\<close>: the call of the base constructor passes the literal
  \<open>n_particles=50\<close>, not the constructor's own parameter.
\<close>

definition GlobalBestPSO_entropy_init ::
  "(nat \<Rightarrow> real list) \<Rightarrow> (nat \<Rightarrow> real list) \<Rightarrow> nat \<Rightarrow> nat \<Rightarrow> Options \<Rightarrow> fval \<Rightarrow> nat \<Rightarrow> optimizer" where
  "GlobalBestPSO_entropy_init gen_pos gen_vel n_particles_arg dimensions_arg options_arg ftol_arg ftol_iter_arg =
     SwarmOptimizer_init gen_pos gen_vel 50 dimensions_arg options_arg ftol_arg ftol_iter_arg"

text \<open>\<open>gbest.py\<close>: the module-level instance \<open>optimizerEntrpy\<close>.\<close>

definition optimizerEntrpy ::
  "(nat \<Rightarrow> real list) \<Rightarrow> (nat \<Rightarrow> real list) \<Rightarrow> Options \<Rightarrow> optimizer" where
  "optimizerEntrpy gen_pos gen_vel opts =
     GlobalBestPSO_entropy_init gen_pos gen_vel 150 2 opts NInf 1"

subsection \<open>Operators of the pyswarms backend\<close>

text \<open>
  The optimizer calls these operators of the pyswarms library. They are embedded as the
  library documents them: the objective is evaluated on every row of the positions, a
  personal best is replaced where the current cost is strictly smaller, and the star
  topology replaces the global best only by a strictly smaller minimum of the personal
  best costs, the first index winning on ties.
\<close>

definition compute_objective_function :: "Swarm \<Rightarrow> (real list \<Rightarrow> fval) \<Rightarrow> fval list" where
  \<comment> \<open>the objective on every row of the position matrix\<close>
  "compute_objective_function sw objective_func = map objective_func (position sw)"

definition compute_pbest :: "Swarm \<Rightarrow> real list list \<times> fval list" where
  \<comment> \<open>row by row: the current position and cost where the current cost is smaller\<close>
  "compute_pbest sw =
     (let mask_cost = map2 flt (current_cost sw) (pbest_cost sw)
      in (map2 (\<lambda>m (old, new). if m then new else old) mask_cost
            (zip (pbest_pos sw) (position sw)),
          map2 (\<lambda>m (old, new). if m then new else old) mask_cost
            (zip (pbest_cost sw) (current_cost sw))))"

definition compute_gbest :: "Swarm \<Rightarrow> py_error + real list \<times> fval" where
  \<comment> \<open>star topology: replaced only by a strictly smaller minimum of the personal bests\<close>
  "compute_gbest sw =
     (case np_min (pbest_cost sw) of
        Inl e \<Rightarrow> Inl e
      | Inr m \<Rightarrow>
          if flt m (best_cost sw)
          then (case np_argmin (pbest_cost sw) of
                  Inl e \<Rightarrow> Inl e
                | Inr k \<Rightarrow> Inr (pbest_pos sw ! k, m))
          else Inr (best_pos sw, best_cost sw))"

subsection \<open>The body of \<open>optimize\<close>\<close>

record run_state =
  self :: optimizer
  previous_pbest_cost :: "fval list"
  cost_history :: "fval list"
  list_R :: "nat list"
  ftol_history :: "bool list"
  stdout :: "real list"

datatype 'a outcome = Break 'a | Continue 'a

definition deque_append :: "nat \<Rightarrow> 'a list \<Rightarrow> 'a \<Rightarrow> 'a list" where
  \<comment> \<open>\<open>deque(maxlen=n).append\<close>: the oldest entry leaves a full deque\<close>
  "deque_append n d x =
     (if n = 0 then [] else if length d < n then d @ [x] else tl d @ [x])"

definition classify :: "fval \<Rightarrow> nat" where
  "classify diff = (if fgt diff (Fin 0.2) then 2 else if fgt diff (Fin (- 0.2)) then 1 else 0)"

definition py_int_of_bool :: "bool \<Rightarrow> nat" where
  \<comment> \<open>Python's \<open>bool\<close> is a subclass of \<open>int\<close>: \<open>False == 0\<close> and \<open>True == 1\<close>\<close>
  "py_int_of_bool b = (if b then 1 else 0)"

definition recalibrate :: "real \<Rightarrow> Options \<times> nat list \<Rightarrow> Options \<times> nat list" where
  "recalibrate R ol =
     (let opts = fst ol; lst = snd ol in
      if R > 0.8 then
        (opts\<lparr> c1 := max 0.1 (c1 opts + 1), c2 := max 0.1 (c2 opts - 1) \<rparr>, lst)
      else if R > 0.6 then
        (opts\<lparr> c1 := max 0.1 (c1 opts + 0.2), c2 := max 0.1 (c2 opts - 0.2) \<rparr>, lst)
      else if R > 0.3 then
        (opts\<lparr> c1 := max 0.1 (c1 opts + 0.2), c2 := max 0.1 (c2 opts + 0.2) \<rparr>, lst)
      else
        (opts\<lparr> c1 := max 0.1 (c1 opts - 1), c2 := max 0.1 (c2 opts + 1) \<rparr>, []))"

definition options_update :: "nat \<Rightarrow> run_state \<Rightarrow> run_state" where
  \<comment> \<open>the block between the options handler and the velocity update\<close>
  "options_update i rs =
     (let diff_cost = map2 fsub (current_cost (swarm (self rs))) (previous_pbest_cost rs);
          rs1 = rs\<lparr> list_R := list_R rs @ map classify diff_cost \<rparr>;
          rs2 = (if i mod 100 = py_int_of_bool False then
                   (let R = entropy (list_R rs1);
                        (opts', lst') = recalibrate R (options (self rs1), list_R rs1)
                    in rs1\<lparr> stdout := stdout rs1 @ [R],
                            self := (self rs1)\<lparr> options := opts' \<rparr>,
                            list_R := lst' \<rparr>)
                 else rs1)
      in rs2\<lparr> previous_pbest_cost := current_cost (swarm (self rs2)) \<rparr>)"

text \<open>
  The velocity and position updates are the star topology's, with the handlers of the
  library and fresh random numbers: \<open>vel_rule i k\<close> and \<open>pos_rule i k\<close> stand for the
  row they produce for particle \<open>k\<close> in iteration \<open>i\<close>, from the options and the swarm.
  With the empty options strategy the handler returns the very dictionary it is given,
  so the swarm reads the coefficients the recalibration has written.
\<close>

definition move ::
  "(nat \<Rightarrow> nat \<Rightarrow> Options \<Rightarrow> Swarm \<Rightarrow> real list) \<Rightarrow> (nat \<Rightarrow> nat \<Rightarrow> Options \<Rightarrow> Swarm \<Rightarrow> real list)
     \<Rightarrow> nat \<Rightarrow> run_state \<Rightarrow> run_state" where
  "move vel_rule pos_rule i rs =
     (let sw = swarm (self rs);
          n = length (position sw);
          sw1 = sw\<lparr> velocity := map (\<lambda>k. vel_rule i k (options (self rs)) sw) [0..<n] \<rparr>;
          sw2 = sw1\<lparr> position := map (\<lambda>k. pos_rule i k (options (self rs)) sw1) [0..<n] \<rparr>
      in rs\<lparr> self := (self rs)\<lparr> swarm := sw2 \<rparr> \<rparr>)"

definition iteration ::
  "(nat \<Rightarrow> nat \<Rightarrow> Options \<Rightarrow> Swarm \<Rightarrow> real list) \<Rightarrow> (nat \<Rightarrow> nat \<Rightarrow> Options \<Rightarrow> Swarm \<Rightarrow> real list)
     \<Rightarrow> (real list \<Rightarrow> fval) \<Rightarrow> nat \<Rightarrow> run_state \<Rightarrow> py_error + run_state outcome" where
  "iteration vel_rule pos_rule objective_func i rs =
     (let sw0 = swarm (self rs);
          sw1 = sw0\<lparr> current_cost := compute_objective_function sw0 objective_func \<rparr>;
          sw2 = sw1\<lparr> pbest_pos := fst (compute_pbest sw1), pbest_cost := snd (compute_pbest sw1) \<rparr>;
          best_cost_yet_found = best_cost sw2
      in case compute_gbest sw2 of
           Inl e \<Rightarrow> Inl e
         | Inr (bp, bc) \<Rightarrow>
             (let sw3 = sw2\<lparr> best_pos := bp, best_cost := bc \<rparr>;
                  relative_measure =
                    fmul (ftol (self rs)) (fadd (Fin 1) (fabs best_cost_yet_found));
                  delta = flt (fabs (fsub bc best_cost_yet_found)) relative_measure;
                  rs1 = rs\<lparr> self := (self rs)\<lparr> swarm := sw3 \<rparr>,
                           cost_history := cost_history rs @ [bc],
                           ftol_history :=
                             deque_append (ftol_iter (self rs)) (ftol_history rs) delta \<rparr>
              in if \<not> i < ftol_iter (self rs) \<and> list_all (\<lambda>b. b) (ftol_history rs1)
                 then Inr (Break rs1)
                 else Inr (Continue (move vel_rule pos_rule i (options_update i rs1)))))"

fun optimize_loop ::
  "(nat \<Rightarrow> nat \<Rightarrow> Options \<Rightarrow> Swarm \<Rightarrow> real list) \<Rightarrow> (nat \<Rightarrow> nat \<Rightarrow> Options \<Rightarrow> Swarm \<Rightarrow> real list)
     \<Rightarrow> (real list \<Rightarrow> fval) \<Rightarrow> nat \<Rightarrow> nat \<Rightarrow> run_state \<Rightarrow> py_error + run_state \<times> nat option" where
  "optimize_loop vel_rule pos_rule objective_func 0 i rs = Inr (rs, None)"
| "optimize_loop vel_rule pos_rule objective_func (Suc n) i rs =
     (case iteration vel_rule pos_rule objective_func i rs of
        Inl e \<Rightarrow> Inl e
      | Inr (Break rs') \<Rightarrow> Inr (rs', Some i)
      | Inr (Continue rs') \<Rightarrow> optimize_loop vel_rule pos_rule objective_func n (Suc i) rs')"

definition optimize_start :: "optimizer \<Rightarrow> run_state" where
  \<comment> \<open>the local variables of \<open>optimize\<close> before the first iteration\<close>
  "optimize_start opt =
     \<lparr> self = opt\<lparr> swarm := (swarm opt)\<lparr> pbest_cost := replicate (fst (swarm_size opt)) PInf \<rparr> \<rparr>,
       previous_pbest_cost = replicate (fst (swarm_size opt)) PInf,
       cost_history = [], list_R = [], ftol_history = [], stdout = [] \<rparr>"

text \<open>
  \<open>optimize\<close> up to the end of its loop: the final state, and the index of the iteration
  at which the loop was left by \<open>break\<close> (\<open>None\<close> when the range was exhausted).
\<close>

definition optimize ::
  "(nat \<Rightarrow> nat \<Rightarrow> Options \<Rightarrow> Swarm \<Rightarrow> real list) \<Rightarrow> (nat \<Rightarrow> nat \<Rightarrow> Options \<Rightarrow> Swarm \<Rightarrow> real list)
     \<Rightarrow> optimizer \<Rightarrow> (real list \<Rightarrow> fval) \<Rightarrow> nat \<Rightarrow> py_error + run_state \<times> nat option" where
  "optimize vel_rule pos_rule opt objective_func iters =
     optimize_loop vel_rule pos_rule objective_func iters 0 (optimize_start opt)"

text \<open>
  The state a run with the constant objective 0 settles into: \<open>N\<close> particles whose
  personal best costs and global best cost all equal \<open>c\<close>, under \<open>ftol = 1e-6\<close> and
  \<open>ftol_iter = 5\<close>.
\<close>

definition settled :: "nat \<Rightarrow> fval \<Rightarrow> run_state \<Rightarrow> bool" where
  "settled N c rs =
     (length (position (swarm (self rs))) = N \<and>
      pbest_cost (swarm (self rs)) = replicate N c \<and>
      best_cost (swarm (self rs)) = c \<and>
      ftol (self rs) = Fin (1 / 1000000) \<and>
      ftol_iter (self rs) = 5)"


section \<open>The variant runners of \<open>algorithms.py\<close>\<close>

text \<open>
  The module \<open>params\<close> is configuration: its values are parameters of the model.
\<close>

record params =
  num_particles :: nat
  num_dimensions :: nat
  num_iterations :: nat
  num_runs :: nat
  params_c1 :: real
  params_c2 :: real
  params_w :: real

text \<open>
  The module-level arrays, and the state of NumPy's global random generator: \<open>rng\<close>
  counts the calls made so far, and the model's parameter \<open>src k j\<close> is component
  \<open>j\<close> of the sample in [0, 1) that call number \<open>k\<close> draws.
\<close>

record globals =
  particles_position :: "real list list"
  particles_velocity :: "real list list"
  personal_best :: "real list list"
  best_fitness_evolution :: "fval list list"
  mean_gbest_evolution :: "fval list list"
  rng :: nat

definition alpha :: real where
  "alpha = 0.1"

definition np_random_rand :: "(nat \<Rightarrow> nat \<Rightarrow> real) \<Rightarrow> nat \<Rightarrow> nat \<Rightarrow> real list" where
  "np_random_rand src k d = map (src k) [0..<d]"

definition np_random_uniform ::
  "(nat \<Rightarrow> nat \<Rightarrow> real) \<Rightarrow> nat \<Rightarrow> real \<Rightarrow> real \<Rightarrow> nat \<Rightarrow> real list" where
  "np_random_uniform src k low high d = map (\<lambda>j. low + (high - low) * src k j) [0..<d]"

definition module_init :: "params \<Rightarrow> (nat \<Rightarrow> nat \<Rightarrow> real) \<Rightarrow> globals" where
  "module_init P src =
     (let n = num_particles P; d = num_dimensions P;
          pos = map (\<lambda>i. map (\<lambda>j. - 600 + (600 - (- 600)) * src 0 (i * d + j)) [0..<d]) [0..<n]
      in \<lparr> particles_position = pos,
           particles_velocity = replicate n (replicate d 0),
           personal_best = pos,
           best_fitness_evolution = replicate (num_iterations P) (replicate (num_runs P) (Fin 0)),
           mean_gbest_evolution = replicate (num_iterations P) (replicate (num_runs P) (Fin 0)),
           rng = 1 \<rparr>)"

text \<open>The factor \<open>fac\<close> is a number or an array with one entry per dimension.\<close>

datatype factor = Scalar real | Vector "real list"

fun times_fac :: "real list \<Rightarrow> factor \<Rightarrow> real list" where
  "times_fac v (Scalar s) = map (\<lambda>x. x * s) v"
| "times_fac v (Vector u) = map2 (*) v u"

definition move_particle ::
  "params \<Rightarrow> (nat \<Rightarrow> nat \<Rightarrow> real) \<Rightarrow> factor \<Rightarrow> nat \<Rightarrow> real list \<Rightarrow> globals \<Rightarrow> globals" where
  \<comment> \<open>the velocity and position update of particle \<open>i\<close>, with two fresh random samples\<close>
  "move_particle P src fac i global_best g =
     (let r1 = np_random_rand src (rng g) (num_dimensions P);
          r2 = np_random_rand src (rng g + 1) (num_dimensions P);
          cognitive_component =
            times_fac (map2 (*) (map (\<lambda>r. params_c1 P * r) r1)
                         (map2 (-) (personal_best g ! i) (particles_position g ! i))) fac;
          social_component =
            times_fac (map2 (*) (map (\<lambda>r. params_c2 P * r) r2)
                         (map (\<lambda>y. y + 0) (map2 (-) global_best (particles_position g ! i)))) fac;
          v = map2 (+) (map2 (+) (map (\<lambda>y. params_w P * y) (particles_velocity g ! i))
                          cognitive_component) social_component;
          g1 = g\<lparr> particles_velocity := (particles_velocity g)[i := v], rng := rng g + 2 \<rparr>
      in g1\<lparr> particles_position :=
               (particles_position g1)[i := map2 (+) (particles_position g1 ! i)
                                              (particles_velocity g1 ! i)] \<rparr>)"

definition update_particle ::
  "params \<Rightarrow> (nat \<Rightarrow> nat \<Rightarrow> real) \<Rightarrow> factor \<Rightarrow> (real list \<Rightarrow> fval) \<Rightarrow> nat
     \<Rightarrow> real list \<times> globals \<Rightarrow> real list \<times> globals" where
  \<comment> \<open>the body of the loop over the particles, on the running global best and the arrays\<close>
  "update_particle P src fac func_bench i acc =
     (let global_best = fst acc;
          g2 = move_particle P src fac i global_best (snd acc)
      in if flt (func_bench (particles_position g2 ! i)) (func_bench (personal_best g2 ! i))
         then (let g3 = g2\<lparr> personal_best := (personal_best g2)[i := particles_position g2 ! i] \<rparr>
               in if flt (func_bench (personal_best g3 ! i)) (func_bench global_best)
                  then (personal_best g3 ! i, g3)
                  else (global_best, g3))
         else (global_best, g2))"

definition compute_global_best ::
  "params \<Rightarrow> (nat \<Rightarrow> nat \<Rightarrow> real) \<Rightarrow> factor \<Rightarrow> (real list \<Rightarrow> fval) \<Rightarrow> globals
     \<Rightarrow> py_error + real list \<times> globals" where
  "compute_global_best P src fac func_bench g =
     (case np_argmin (map func_bench (personal_best g)) of
        Inl e \<Rightarrow> Inl e
      | Inr global_best_idx \<Rightarrow>
          Inr (foldl (\<lambda>acc i. update_particle P src fac func_bench i acc)
                 (personal_best g ! global_best_idx, g) [0..<num_particles P]))"

definition set_entry ::
  "params \<Rightarrow> fval list list \<Rightarrow> nat \<Rightarrow> nat \<Rightarrow> fval \<Rightarrow> py_error + fval list list" where
  \<comment> \<open>\<open>m[i, j] = v\<close> on an array of shape (num_iterations, num_runs)\<close>
  "set_entry P m i j v =
     (if i < num_iterations P \<and> j < num_runs P
      then Inr (m[i := (m ! i)[j := v]]) else Inl IndexError)"

definition set_column ::
  "params \<Rightarrow> fval list list \<Rightarrow> nat \<Rightarrow> fval list \<Rightarrow> py_error + fval list list" where
  \<comment> \<open>\<open>m[:, j] = vs\<close> on an array of shape (num_iterations, num_runs)\<close>
  "set_column P m j vs =
     (if \<not> j < num_runs P then Inl IndexError
      else if length vs \<noteq> num_iterations P then Inl ValueError
      else Inr (map2 (\<lambda>row v. row[j := v]) m vs))"

fun CPSO_iterations ::
  "params \<Rightarrow> (nat \<Rightarrow> nat \<Rightarrow> real) \<Rightarrow> (real list \<Rightarrow> fval) \<Rightarrow> nat \<Rightarrow> nat list \<Rightarrow> globals
     \<Rightarrow> py_error + globals" where
  "CPSO_iterations P src func_bench run [] g = Inr g"
| "CPSO_iterations P src func_bench run (it # rest) g =
     (case compute_global_best P src (Scalar 1) func_bench g of
        Inl e \<Rightarrow> Inl e
      | Inr (global_best, g1) \<Rightarrow>
          (case set_entry P (best_fitness_evolution g1) it run (func_bench global_best) of
             Inl e \<Rightarrow> Inl e
           | Inr m \<Rightarrow>
               CPSO_iterations P src func_bench run rest (g1\<lparr> best_fitness_evolution := m \<rparr>)))"

definition CPSOAlgorithm ::
  "params \<Rightarrow> (nat \<Rightarrow> nat \<Rightarrow> real) \<Rightarrow> nat \<Rightarrow> (real list \<Rightarrow> fval) \<Rightarrow> globals
     \<Rightarrow> py_error + fval list list \<times> globals" where
  "CPSOAlgorithm P src run func_bench g =
     (case CPSO_iterations P src func_bench run [0..<num_iterations P] g of
        Inl e \<Rightarrow> Inl e
      | Inr g' \<Rightarrow> Inr (best_fitness_evolution g', g'))"

text \<open>
  The loop shared by the other three runners: \<open>n\<close> calls of \<open>compute_global_best\<close>,
  the cost of each returned global best appended to \<open>gbest_values\<close>.
\<close>

fun gbest_loop ::
  "params \<Rightarrow> (nat \<Rightarrow> nat \<Rightarrow> real) \<Rightarrow> factor \<Rightarrow> (real list \<Rightarrow> fval) \<Rightarrow> nat
     \<Rightarrow> fval list \<times> globals \<Rightarrow> py_error + fval list \<times> globals" where
  "gbest_loop P src fac func_bench 0 acc = Inr acc"
| "gbest_loop P src fac func_bench (Suc n) acc =
     (case compute_global_best P src fac func_bench (snd acc) of
        Inl e \<Rightarrow> Inl e
      | Inr (global_best, g1) \<Rightarrow>
          gbest_loop P src fac func_bench n (fst acc @ [func_bench global_best], g1))"

definition SPSOAlgorithm ::
  "params \<Rightarrow> (nat \<Rightarrow> nat \<Rightarrow> real) \<Rightarrow> nat \<Rightarrow> (real list \<Rightarrow> fval) \<Rightarrow> globals
     \<Rightarrow> py_error + fval list list \<times> globals" where
  "SPSOAlgorithm P src run func_bench g =
     (case np_argmin (map func_bench (personal_best g)) of
        Inl e \<Rightarrow> Inl e
      | Inr global_best_idx \<Rightarrow>
          (case gbest_loop P src (Scalar 1) func_bench (num_iterations P) ([], g) of
             Inl e \<Rightarrow> Inl e
           | Inr (gbest_values, g1) \<Rightarrow>
               (case set_column P (mean_gbest_evolution g1) run gbest_values of
                  Inl e \<Rightarrow> Inl e
                | Inr m \<Rightarrow> Inr (m, g1\<lparr> mean_gbest_evolution := m \<rparr>))))"

definition HCLPSOAlgorithm ::
  "params \<Rightarrow> (nat \<Rightarrow> nat \<Rightarrow> real) \<Rightarrow> nat \<Rightarrow> (real list \<Rightarrow> fval) \<Rightarrow> globals
     \<Rightarrow> py_error + fval list list \<times> globals" where
  "HCLPSOAlgorithm P src run func_bench g =
     (case np_argmin (map func_bench (personal_best g)) of
        Inl e \<Rightarrow> Inl e
      | Inr global_best_idx \<Rightarrow>
          (let heterogeneity_factor =
                 np_random_uniform src (rng g) (1 - alpha) (1 + alpha) (num_dimensions P);
               g0 = g\<lparr> rng := rng g + 1 \<rparr>
           in case gbest_loop P src (Vector heterogeneity_factor) func_bench
                     (num_iterations P) ([], g0) of
                Inl e \<Rightarrow> Inl e
              | Inr (gbest_values, g1) \<Rightarrow>
                  (case set_column P (mean_gbest_evolution g1) run gbest_values of
                     Inl e \<Rightarrow> Inl e
                   | Inr m \<Rightarrow> Inr (m, g1\<lparr> mean_gbest_evolution := m \<rparr>))))"

definition EPSOAlgorithm ::
  "params \<Rightarrow> (nat \<Rightarrow> nat \<Rightarrow> real) \<Rightarrow> nat \<Rightarrow> (real list \<Rightarrow> fval) \<Rightarrow> globals
     \<Rightarrow> py_error + fval list list \<times> globals" where
  "EPSOAlgorithm P src run func_bench g =
     (case np_argmin (map func_bench (personal_best g)) of
        Inl e \<Rightarrow> Inl e
      | Inr global_best_idx \<Rightarrow>
          (case gbest_loop P src (Scalar (params_w P)) func_bench (num_iterations P) ([], g) of
             Inl e \<Rightarrow> Inl e
           | Inr (gbest_values, g1) \<Rightarrow>
               (case set_column P (best_fitness_evolution g1) run gbest_values of
                  Inl e \<Rightarrow> Inl e
                | Inr m \<Rightarrow> Inr (m, g1\<lparr> best_fitness_evolution := m \<rparr>))))"

subsection \<open>The runner calls of \<open>plot\<close>\<close>

datatype variant = CPSO | SPSO | HCLPSO | EPSO

definition runner ::
  "params \<Rightarrow> (nat \<Rightarrow> nat \<Rightarrow> real) \<Rightarrow> (real list \<Rightarrow> fval) \<Rightarrow> variant \<times> nat \<Rightarrow> globals
     \<Rightarrow> py_error + globals" where
  \<comment> \<open>one runner call, as a change of the module-level state\<close>
  "runner P src func_bench call g =
     (case (case fst call of
              CPSO \<Rightarrow> CPSOAlgorithm P src (snd call) func_bench g
            | SPSO \<Rightarrow> SPSOAlgorithm P src (snd call) func_bench g
            | HCLPSO \<Rightarrow> HCLPSOAlgorithm P src (snd call) func_bench g
            | EPSO \<Rightarrow> EPSOAlgorithm P src (snd call) func_bench g) of
        Inl e \<Rightarrow> Inl e
      | Inr res \<Rightarrow> Inr (snd res))"

definition plot_calls :: "params \<Rightarrow> (variant \<times> nat) list" where
  \<comment> \<open>the calls \<open>plot\<close> makes, in order: the four runners for each run\<close>
  "plot_calls P =
     concat (map (\<lambda>run. [(CPSO, run), (SPSO, run), (HCLPSO, run), (EPSO, run)])
               [0..<num_runs P])"







subsection \<open>A benchmark function and a small configuration\<close>

text \<open>\<open>benchFunctions.Sphere\<close> on one particle: the sum of the squares.\<close>

definition Sphere :: "real list \<Rightarrow> fval" where
  "Sphere x = Fin (sum_list (map (\<lambda>y. y * y) x))"

text \<open>
  Two particles in one dimension, two iterations, one run; a generator whose first
  sample places the particles at 1 and 4 and whose later samples are all 1/2.
\<close>

definition example_params :: params where
  "example_params =
     \<lparr> num_particles = 2, num_dimensions = 1, num_iterations = 2, num_runs = 1,
       params_c1 = 1, params_c2 = 1, params_w = 1 \<rparr>"

definition example_src :: "nat \<Rightarrow> nat \<Rightarrow> real" where
  "example_src k j =
     (if k = 0 then (if j = 0 then 601 / 1200 else 604 / 1200) else 1 / 2)"

section \<open>Facts about the costs and the reductions\<close>

lemma flt_irrefl: "\<not> flt a a"
  by (cases a) simp_all

lemma flt_asym: "flt a b \<Longrightarrow> \<not> flt b a"
  by (cases a; cases b) simp_all

lemma flt_not_nan: "flt a b \<Longrightarrow> a \<noteq> NaN \<and> b \<noteq> NaN"
  by (cases a; cases b) simp_all


lemma argmin_scan_const: "argmin_scan (Fin a) k i (replicate m (Fin a)) = k"
  by (induction m arbitrary: i) (simp_all add: fge_def fle_def)

lemma np_argmin_const: "0 < N \<Longrightarrow> np_argmin (replicate N (Fin a)) = Inr 0"
  by (cases N) (simp_all add: np_argmin_def argmin_scan_const)

lemma np_min_const: "0 < N \<Longrightarrow> np_min (replicate N (Fin a)) = Inr (Fin a)"
  by (simp add: np_min_def np_argmin_const)

section \<open>The entropy and the recalibration\<close>

text \<open>
  C9. The entropy function returns exactly 1 on the list [0,0,0,1,1,1] (two equally
  likely labels) and exactly 0 on the list [0,0,0,0] (a single label).
\<close>

theorem entropy_examples:
  "entropy [0, 0, 0, 1, 1, 1] = 1 \<and> entropy [0, 0, 0, 0] = 0"
  by (simp add: entropy_def Counter_def log_divide)




lemma recalibrate_floor:
  "0.1 \<le> c1 (fst (recalibrate R ol)) \<and> 0.1 \<le> c2 (fst (recalibrate R ol))"
  by (auto simp add: recalibrate_def Let_def max_def)


lemma options_update_options:
  "options (self (options_update i rs)) =
     (if i mod 100 = 0
      then fst (recalibrate
             (entropy (list_R rs @ map classify
                (map2 fsub (current_cost (swarm (self rs))) (previous_pbest_cost rs))))
             (options (self rs), list_R rs @ map classify
                (map2 fsub (current_cost (swarm (self rs))) (previous_pbest_cost rs))))
      else options (self rs))"
  by (simp add: options_update_def Let_def py_int_of_bool_def split: prod.splits)

lemma move_keeps:
  "length (position (swarm (self (move vr pr i rs)))) = length (position (swarm (self rs)))"
  "pbest_cost (swarm (self (move vr pr i rs))) = pbest_cost (swarm (self rs))"
  "best_cost (swarm (self (move vr pr i rs))) = best_cost (swarm (self rs))"
  "ftol (self (move vr pr i rs)) = ftol (self rs)"
  "ftol_iter (self (move vr pr i rs)) = ftol_iter (self rs)"
  "ftol_history (move vr pr i rs) = ftol_history rs"
  "cost_history (move vr pr i rs) = cost_history rs"
  "stdout (move vr pr i rs) = stdout rs"
  "options (self (move vr pr i rs)) = options (self rs)"
  "list_R (move vr pr i rs) = list_R rs"
  by (simp_all add: move_def Let_def)

lemma options_update_keeps:
  "length (position (swarm (self (options_update i rs)))) = length (position (swarm (self rs)))"
  "pbest_cost (swarm (self (options_update i rs))) = pbest_cost (swarm (self rs))"
  "best_cost (swarm (self (options_update i rs))) = best_cost (swarm (self rs))"
  "ftol (self (options_update i rs)) = ftol (self rs)"
  "ftol_iter (self (options_update i rs)) = ftol_iter (self rs)"
  "ftol_history (options_update i rs) = ftol_history rs"
  "cost_history (options_update i rs) = cost_history rs"
  by (simp_all add: options_update_def Let_def split: prod.splits)

text \<open>
  C8. Under the entropy-adaptive controller, after every recalibration adjustment both
  coefficients satisfy c1 >= 0.1 and c2 >= 0.1: whatever the entropy and the coefficients
  before, the adjustment leaves both at 0.1 or above, and so does the controller block
  of every iteration whose index is a multiple of 100.
\<close>

theorem coefficients_floor:
  "0.1 \<le> c1 (fst (recalibrate R (opts, lst))) \<and> 0.1 \<le> c2 (fst (recalibrate R (opts, lst)))
   \<and> 0.1 \<le> c1 (options (self (options_update (100 * k) rs)))
   \<and> 0.1 \<le> c2 (options (self (options_update (100 * k) rs)))"
  by (simp only: options_update_options mod_mult_self1_is_0 if_True recalibrate_floor
      simp_thms)

section \<open>The swarm size\<close>

text \<open>
  C4 (as the code has it). The constructor of the entropy-adaptive optimizer passes the
  literal 50 to the base constructor: whatever \<open>n_particles\<close> it is given, the swarm
  has 50 particles, and the instance constructed with \<open>n_particles=150\<close> keeps 50
  positions, 50 velocities and 50 personal bests.
\<close>

theorem entropy_optimizer_swarm_size:
  "n_particles (GlobalBestPSO_entropy_init gp gv n d opts tol ti) = 50
   \<and> swarm_size (GlobalBestPSO_entropy_init gp gv n d opts tol ti) = (50, d)
   \<and> length (position (swarm (optimizerEntrpy gp gv opts))) = 50
   \<and> length (velocity (swarm (optimizerEntrpy gp gv opts))) = 50
   \<and> length (pbest_pos (swarm (optimizerEntrpy gp gv opts))) = 50"
  by (simp add: optimizerEntrpy_def GlobalBestPSO_entropy_init_def SwarmOptimizer_init_def)

section \<open>The first iteration\<close>







section \<open>The stopping test on a constant objective\<close>

lemma pbest_cost_const:
  "length ps = N \<Longrightarrow> flt (Fin 0) c \<or> c = Fin 0 \<Longrightarrow>
   map2 (\<lambda>m (old, new). if m then new else old)
     (map2 flt (map (\<lambda>x. Fin 0) ps) (replicate N c))
     (zip (replicate N c) (map (\<lambda>x. Fin 0) ps)) = replicate N (Fin 0)"
proof (induction ps arbitrary: N)
  case Nil
  then show ?case by simp
next
  case (Cons p ps)
  then obtain M where "N = Suc M" by (cases N) auto
  with Cons show ?case by auto
qed

lemma iteration_first_const:
  assumes "settled N PInf rs" and "0 < N" and "i < 5"
  shows "\<exists>rs'. iteration vr pr (\<lambda>x. Fin 0) i rs = Inr (Continue rs') \<and> settled N (Fin 0) rs'
           \<and> ftol_history rs' = deque_append 5 (ftol_history rs) False
           \<and> cost_history rs' = cost_history rs @ [Fin 0]"
  using assms pbest_cost_const [of "position (swarm (self rs))" N PInf]
  by (simp add: settled_def iteration_def Let_def compute_objective_function_def
      compute_pbest_def compute_gbest_def np_min_const np_argmin_const move_keeps
      options_update_keeps fsub_def inf_times_def)

lemma iteration_later_continue:
  assumes "settled N (Fin 0) rs" and "0 < N"
    and "i < 5 \<or> \<not> list_all (\<lambda>b. b) (deque_append 5 (ftol_history rs) True)"
  shows "\<exists>rs'. iteration vr pr (\<lambda>x. Fin 0) i rs = Inr (Continue rs') \<and> settled N (Fin 0) rs'
           \<and> ftol_history rs' = deque_append 5 (ftol_history rs) True
           \<and> cost_history rs' = cost_history rs @ [Fin 0]"
  using assms pbest_cost_const [of "position (swarm (self rs))" N "Fin 0"]
  by (auto simp add: settled_def iteration_def Let_def compute_objective_function_def
      compute_pbest_def compute_gbest_def np_min_const np_argmin_const move_keeps
      options_update_keeps fsub_def)

lemma iteration_later_break:
  assumes "settled N (Fin 0) rs" and "0 < N"
    and "\<not> i < 5" and "list_all (\<lambda>b. b) (deque_append 5 (ftol_history rs) True)"
  shows "\<exists>rs'. iteration vr pr (\<lambda>x. Fin 0) i rs = Inr (Break rs')
           \<and> cost_history rs' = cost_history rs @ [Fin 0]"
  using assms pbest_cost_const [of "position (swarm (self rs))" N "Fin 0"]
  by (auto simp add: settled_def iteration_def Let_def compute_objective_function_def
      compute_pbest_def compute_gbest_def np_min_const np_argmin_const fsub_def)

lemma loop_const:
  assumes s0: "settled N PInf rs" and N: "0 < N"
    and h0: "ftol_history rs = []" and c0: "cost_history rs = []"
  shows "\<exists>rs'. optimize_loop vr pr (\<lambda>x. Fin 0) (6 + k) 0 rs = Inr (rs', Some 5)
           \<and> cost_history rs' = replicate 6 (Fin 0)"
proof -
  let ?it = "iteration vr pr (\<lambda>x. Fin 0)"
  obtain r1 where r1: "?it 0 rs = Inr (Continue r1)" "settled N (Fin 0) r1"
      "ftol_history r1 = [False]" "cost_history r1 = [Fin 0]"
    using iteration_first_const [OF s0 N, of 0 vr pr] h0 c0
    by (auto simp add: deque_append_def)
  obtain r2 where r2: "?it 1 r1 = Inr (Continue r2)" "settled N (Fin 0) r2"
      "ftol_history r2 = [False, True]" "cost_history r2 = [Fin 0, Fin 0]"
    using iteration_later_continue [OF r1(2) N, of 1 vr pr] r1(3,4)
    by (auto simp add: deque_append_def)
  obtain r3 where r3: "?it 2 r2 = Inr (Continue r3)" "settled N (Fin 0) r3"
      "ftol_history r3 = [False, True, True]" "cost_history r3 = [Fin 0, Fin 0, Fin 0]"
    using iteration_later_continue [OF r2(2) N, of 2 vr pr] r2(3,4)
    by (auto simp add: deque_append_def)
  obtain r4 where r4: "?it 3 r3 = Inr (Continue r4)" "settled N (Fin 0) r4"
      "ftol_history r4 = [False, True, True, True]"
      "cost_history r4 = [Fin 0, Fin 0, Fin 0, Fin 0]"
    using iteration_later_continue [OF r3(2) N, of 3 vr pr] r3(3,4)
    by (auto simp add: deque_append_def)
  obtain r5 where r5: "?it 4 r4 = Inr (Continue r5)" "settled N (Fin 0) r5"
      "ftol_history r5 = [False, True, True, True, True]"
      "cost_history r5 = [Fin 0, Fin 0, Fin 0, Fin 0, Fin 0]"
    using iteration_later_continue [OF r4(2) N, of 4 vr pr] r4(3,4)
    by (auto simp add: deque_append_def)
  obtain r6 where r6: "?it 5 r5 = Inr (Break r6)"
      "cost_history r6 = [Fin 0, Fin 0, Fin 0, Fin 0, Fin 0, Fin 0]"
    using iteration_later_break [OF r5(2) N, of 5 vr pr] r5(3,4)
    by (auto simp add: deque_append_def)
  have k: "6 + k = Suc (Suc (Suc (Suc (Suc (Suc k)))))"
    by simp
  have "optimize_loop vr pr (\<lambda>x. Fin 0) (6 + k) 0 rs = Inr (r6, Some 5)"
    unfolding k using r1(1) r2(1) r3(1) r4(1) r5(1) r6(1)
    by (simp add: eval_nat_numeral)
  moreover have "cost_history r6 = replicate 6 (Fin 0)"
    using r6(2) by (simp add: eval_nat_numeral)
  ultimately show ?thesis
    by blast
qed

text \<open>
  C6. With ftol = 1e-6, ftol_iter = 5 and the constant objective f(x) = 0, optimize
  leaves its loop at iteration 5, the first at which the window of five entries holds
  only true ones, instead of running all its iterations: for every number of iterations
  above 5 the loop is left by the stopping test at index 5, with six costs recorded,
  all 0.
\<close>

theorem constant_objective_stops_at_5:
  "\<exists>rs'. optimize vr pr (GlobalBestPSO_entropy_init gp gv n d opts (Fin (1 / 1000000)) 5)
             (\<lambda>x. Fin 0) (6 + k) = Inr (rs', Some 5)
         \<and> cost_history rs' = replicate 6 (Fin 0)"
  unfolding optimize_def
  by (rule loop_const [where N = 50])
     (simp_all add: settled_def optimize_start_def GlobalBestPSO_entropy_init_def
        SwarmOptimizer_init_def)

section \<open>Recalibration over a run\<close>






section \<open>The order of the costs and the minimum chosen by \<open>argmin\<close>\<close>

lemma flt_trans: "flt a b \<Longrightarrow> flt b c \<Longrightarrow> flt a c"
  by (cases a; cases b; cases c) simp_all

lemma fle_refl: "a \<noteq> NaN \<Longrightarrow> fle a a"
  by (simp add: fle_def flt_irrefl)

lemma fle_trans: "fle a b \<Longrightarrow> fle b c \<Longrightarrow> fle a c"
  by (cases a; cases b; cases c) (simp_all add: fle_def)

lemma flt_imp_fle: "flt a b \<Longrightarrow> fle a b"
  by (cases a; cases b) (simp_all add: fle_def)

lemma not_fge_iff: "a \<noteq> NaN \<Longrightarrow> b \<noteq> NaN \<Longrightarrow> (\<not> fge a b) = flt a b"
  by (simp add: fge_def fle_def)

lemma argmin_scan_min:
  assumes "mp \<noteq> NaN" and "NaN \<notin> set xs" and "mi < i"
  shows "(argmin_scan mp mi i xs = mi \<or>
            (i \<le> argmin_scan mp mi i xs \<and> argmin_scan mp mi i xs < i + length xs))
         \<and> fle (if argmin_scan mp mi i xs < i then mp else xs ! (argmin_scan mp mi i xs - i)) mp
         \<and> (\<forall>x\<in>set xs.
              fle (if argmin_scan mp mi i xs < i then mp else xs ! (argmin_scan mp mi i xs - i)) x)"
  using assms
proof (induction xs arbitrary: mp mi i)
  case Nil
  then show ?case by (simp add: fle_refl)
next
  case (Cons x xs)
  have xn: "x \<noteq> NaN" and xsn: "NaN \<notin> set xs"
    using Cons.prems(2) by auto
  show ?case
  proof (cases "flt x mp")
    case True
    let ?r = "argmin_scan x i (Suc i) xs"
    have r: "argmin_scan mp mi i (x # xs) = ?r"
      using True xn Cons.prems(1) by (simp add: not_fge_iff)
    have ih: "(?r = i \<or> (Suc i \<le> ?r \<and> ?r < Suc i + length xs))
         \<and> fle (if ?r < Suc i then x else xs ! (?r - Suc i)) x
         \<and> (\<forall>y\<in>set xs. fle (if ?r < Suc i then x else xs ! (?r - Suc i)) y)"
      using Cons.IH [of x i "Suc i"] xn xsn by simp
    have v: "(if ?r < i then mp else (x # xs) ! (?r - i))
               = (if ?r < Suc i then x else xs ! (?r - Suc i))"
      using ih by (auto simp add: nth_Cons')
    show ?thesis
      unfolding r v using ih True
      by (auto intro: fle_trans flt_imp_fle)
  next
    case False
    let ?r = "argmin_scan mp mi (Suc i) xs"
    have r: "argmin_scan mp mi i (x # xs) = ?r"
      using False xn Cons.prems(1) by (simp add: not_fge_iff)
    have ih: "(?r = mi \<or> (Suc i \<le> ?r \<and> ?r < Suc i + length xs))
         \<and> fle (if ?r < Suc i then mp else xs ! (?r - Suc i)) mp
         \<and> (\<forall>y\<in>set xs. fle (if ?r < Suc i then mp else xs ! (?r - Suc i)) y)"
      using Cons.IH [of mp mi "Suc i"] Cons.prems xsn by simp
    have v: "(if ?r < i then mp else (x # xs) ! (?r - i))
               = (if ?r < Suc i then mp else xs ! (?r - Suc i))"
      using ih Cons.prems(3) by (auto simp add: nth_Cons')
    have "fle mp x"
      using False xn Cons.prems(1) by (simp add: fle_def)
    then show ?thesis
      unfolding r v using ih
      by (auto intro: fle_trans)
  qed
qed

lemma np_argmin_min:
  assumes "np_argmin xs = Inr k" and "NaN \<notin> set xs"
  shows "k < length xs \<and> (\<forall>x\<in>set xs. fle (xs ! k) x)"
proof (cases xs)
  case Nil
  then show ?thesis using assms by (simp add: np_argmin_def)
next
  case (Cons x rest)
  have xn: "x \<noteq> NaN" and rn: "NaN \<notin> set rest"
    using assms(2) Cons by auto
  let ?r = "argmin_scan x 0 1 rest"
  have k: "k = ?r"
    using assms(1) Cons xn by (simp add: np_argmin_def)
  have m: "(?r = 0 \<or> (1 \<le> ?r \<and> ?r < 1 + length rest))
         \<and> fle (if ?r < 1 then x else rest ! (?r - 1)) x
         \<and> (\<forall>y\<in>set rest. fle (if ?r < 1 then x else rest ! (?r - 1)) y)"
    using argmin_scan_min [of x rest 0 1] xn rn by simp
  have v: "xs ! k = (if ?r < 1 then x else rest ! (?r - 1))"
    using Cons k by (auto simp add: nth_Cons')
  show ?thesis
    unfolding v using m Cons k by auto
qed

section \<open>One sweep over the particles\<close>



lemma update_particle_gb:
  "fst (update_particle P src fac f i acc) = fst acc
   \<or> flt (f (fst (update_particle P src fac f i acc))) (f (fst acc))"
  by (simp add: update_particle_def Let_def)







lemma sweep_gb:
  "f (fst (foldl (\<lambda>a i. update_particle P src fac f i a) acc is)) = f (fst acc)
   \<or> flt (f (fst (foldl (\<lambda>a i. update_particle P src fac f i a) acc is))) (f (fst acc))"
proof (induction "is" arbitrary: acc)
  case Nil
  then show ?case by simp
next
  case (Cons i "is")
  show ?case
    using Cons.IH [of "update_particle P src fac f i acc"] update_particle_gb [of P src fac f i acc]
    by (auto intro: flt_trans)
qed

lemma flt_left: "flt a b \<Longrightarrow> a \<noteq> PInf \<and> a \<noteq> NaN"
  by (cases a; cases b) simp_all

lemma fle_finite: "fle a b \<Longrightarrow> is_finite b \<Longrightarrow> a \<noteq> PInf \<and> a \<noteq> NaN"
  by (cases a; cases b) (simp_all add: fle_def is_finite_def)



section \<open>The recorded best costs\<close>






















lemmas run_defs = example_params_def example_src_def Sphere_def module_init_def plot_calls_def
  runner_def CPSOAlgorithm_def SPSOAlgorithm_def HCLPSOAlgorithm_def EPSOAlgorithm_def
  set_entry_def set_column_def compute_global_best_def update_particle_def move_particle_def
  np_argmin_def np_random_rand_def np_random_uniform_def alpha_def fge_def fle_def
  upt_conv_Cons Let_def eval_nat_numeral



section \<open>Costs that are not finite\<close>

text \<open>
  C3, as the code has it. A personal best cost of +infinity compares as worse than any
  finite cost: when no personal best cost is NaN and some particle has a finite one,
  \<open>argmin\<close> does not choose a particle of cost +infinity and the global best that
  \<open>compute_global_best\<close> returns has a cost that is neither +infinity nor NaN.
  NaN is not treated as worse: \<open>argmin\<close> chooses the first NaN.
\<close>

theorem plus_infinity_never_selected:
  assumes "NaN \<notin> set (map func_bench (personal_best g))"
    and "\<exists>p\<in>set (personal_best g). is_finite (func_bench p)"
    and "compute_global_best P src fac func_bench g = Inr (gb, g')"
  shows "func_bench gb \<noteq> PInf \<and> func_bench gb \<noteq> NaN
         \<and> (\<exists>k<length (personal_best g). np_argmin (map func_bench (personal_best g)) = Inr k
               \<and> func_bench (personal_best g ! k) \<noteq> PInf)"
proof -
  obtain k where k: "np_argmin (map func_bench (personal_best g)) = Inr k"
    using assms(3) by (auto simp add: compute_global_best_def split: sum.splits)
  from np_argmin_min [OF k assms(1)]
  have klt: "k < length (personal_best g)"
    and kmin: "\<forall>p\<in>set (personal_best g). fle (func_bench (personal_best g ! k)) (func_bench p)"
    by auto
  obtain p where "p \<in> set (personal_best g)" "is_finite (func_bench p)"
    using assms(2) by blast
  then have start: "func_bench (personal_best g ! k) \<noteq> PInf \<and> func_bench (personal_best g ! k) \<noteq> NaN"
    using kmin fle_finite by blast
  have res: "foldl (\<lambda>a i. update_particle P src fac func_bench i a) (personal_best g ! k, g)
               [0..<num_particles P] = (gb, g')"
    using assms(3) k by (simp add: compute_global_best_def)
  have "func_bench gb = func_bench (personal_best g ! k)
        \<or> flt (func_bench gb) (func_bench (personal_best g ! k))"
    using sweep_gb [of func_bench P src fac "(personal_best g ! k, g)" "[0..<num_particles P]"] res
    by simp
  then have "func_bench gb \<noteq> PInf \<and> func_bench gb \<noteq> NaN"
    using start flt_left by auto
  then show ?thesis
    using k klt start by auto
qed

theorem plus_infinity_never_selected_witness:
  "compute_global_best example_params example_src (Scalar 1)
       (\<lambda>p. if p = [4] then PInf else Sphere p) (module_init example_params example_src)
     = Inr ([1],
            \<lparr> particles_position = [[1], [5 / 2]], particles_velocity = [[0], [- (3 / 2)]],
              personal_best = [[1], [5 / 2]],
              best_fitness_evolution = [[Fin 0], [Fin 0]],
              mean_gbest_evolution = [[Fin 0], [Fin 0]], rng = 5 \<rparr>)
   \<and> (if [1] = [4::real] then PInf else Sphere [1]) \<noteq> PInf
   \<and> (if [1] = [4::real] then PInf else Sphere [1]) \<noteq> NaN"
proof -
  let ?g = "module_init example_params example_src"
  let ?f = "\<lambda>p. if p = [4] then PInf else Sphere p"
  let ?g' = "\<lparr> particles_position = [[1], [5 / 2]], particles_velocity = [[0], [- (3 / 2)]],
              personal_best = [[1], [5 / 2]],
              best_fitness_evolution = [[Fin 0], [Fin 0]],
              mean_gbest_evolution = [[Fin 0], [Fin 0]], rng = 5 \<rparr>"
  have r: "compute_global_best example_params example_src (Scalar 1) ?f ?g = Inr ([1], ?g')"
    by (simp add: run_defs)
  have h1: "NaN \<notin> set (map ?f (personal_best ?g))"
    by (simp add: run_defs)
  have h2: "\<exists>p\<in>set (personal_best ?g). is_finite (?f p)"
    by (simp add: run_defs is_finite_def)
  have "?f [1] \<noteq> PInf \<and> ?f [1] \<noteq> NaN"
    using plus_infinity_never_selected [OF h1 h2 r, THEN conjunct1]
      plus_infinity_never_selected [OF h1 h2 r, THEN conjunct2, THEN conjunct1]
    by (rule conjI)
  with r show ?thesis
    by (rule conjI)
qed

text \<open>
  The claim as stated fails: the second particle's personal best has cost NaN, the
  first one's has the finite cost 1, and \<open>compute_global_best\<close> returns the second.
\<close>

theorem nan_selected_as_global_best:
  "map_sum id fst (compute_global_best example_params example_src (Scalar 1)
       (\<lambda>p. if p = [4] then NaN else Sphere p) (module_init example_params example_src))
     = Inr [4]
   \<and> personal_best (module_init example_params example_src) = [[1], [4]]
   \<and> (if [4] = [4::real] then NaN else Sphere [4]) = NaN
   \<and> (if [1] = [4::real] then NaN else Sphere [1]) = Fin 1"
  by (simp add: run_defs)

section \<open>The update of velocities and positions\<close>
















section \<open>The state the runners start from\<close>







end
